theory Spec2Isabelle
  imports Main "HOL-Library.Sublist" "HOL-Library.Char_ord" "HOL-Library.List_Lexorder"
begin

unbundle bit_operations_syntax

section \<open>Installing solc: a model of \<open>helios_solc/install.py\<close>\<close>

text \<open>
  The module computes the filesystem locations of one compiler version, runs external
  tools (git, wget, cmake, make, sh) and dispatches on a (platform, version) table.
  Python strings are \<^typ>\<open>string\<close>; the path functions of \<open>os.path\<close> are the
  POSIX ones (the dispatch table only knows linux and darwin).
\<close>

subsection \<open>Constants of the module\<close>

definition V100_5_12 :: string where
  "V100_5_12 = ''v100.5.12''"

definition V100_5_15 :: string where
  "V100_5_15 = ''v100.5.15''"

definition LINUX :: string where
  "LINUX = ''linux''"

definition OSX :: string where
  "OSX = ''darwin''"

definition WINDOWS :: string where
  "WINDOWS = ''win32''"

definition SOLIDITY_GIT_URI :: string where
  "SOLIDITY_GIT_URI = ''https://github.com/Helios-Protocol/solidity.git''"

subsection \<open>String helpers of Python used by the module\<close>

definition sep :: char where
  "sep = CHR ''/''"

text \<open>\<open>s.startswith(p)\<close> and \<open>s.endswith(c)\<close> for a one-character \<open>c\<close>.\<close>

definition startswith :: "string \<Rightarrow> string \<Rightarrow> bool" where
  "startswith s p = (take (length p) s = p)"

definition endswith_char :: "string \<Rightarrow> char \<Rightarrow> bool" where
  "endswith_char s c = (case rev s of [] \<Rightarrow> False | x # _ \<Rightarrow> x = c)"

text \<open>\<open>s.rstrip(c)\<close> and \<open>s.strip(c)\<close> for a one-character set.\<close>

definition rstrip :: "char \<Rightarrow> string \<Rightarrow> string" where
  "rstrip c s = rev (dropWhile (\<lambda>x. x = c) (rev s))"

definition strip :: "char \<Rightarrow> string \<Rightarrow> string" where
  "strip c s = rstrip c (dropWhile (\<lambda>x. x = c) s)"

text \<open>\<open>sep.join(xs)\<close>.\<close>

fun str_join :: "string \<Rightarrow> string list \<Rightarrow> string" where
  "str_join s [] = []"
| "str_join s [x] = x"
| "str_join s (x # y # ys) = x @ s @ str_join s (y # ys)"

text \<open>\<open>s.split(c)\<close> with an explicit separator: every occurrence splits, and the
  empty string gives one empty field.\<close>

fun split_on :: "char \<Rightarrow> string \<Rightarrow> string list" where
  "split_on c [] = [[]]"
| "split_on c (x # xs) =
     (if x = c then [] # split_on c xs
      else (case split_on c xs of [] \<Rightarrow> [[x]] | f # fs \<Rightarrow> (x # f) # fs))"

subsection \<open>\<open>os.path\<close> (posixpath)\<close>

text \<open>One step of the loop of \<open>posixpath.join\<close>: an absolute component replaces the
  path, otherwise it is appended, with a separator unless the path is empty or ends
  with one.\<close>

definition join2 :: "string \<Rightarrow> string \<Rightarrow> string" where
  "join2 path b =
     (if startswith b [sep] then b
      else if path = [] \<or> endswith_char path sep then path @ b
      else path @ [sep] @ b)"

definition os_path_join :: "string \<Rightarrow> string list \<Rightarrow> string" where
  "os_path_join a p = foldl join2 a p"

text \<open>\<open>posixpath.dirname\<close>: everything up to the last separator, with trailing
  separators removed unless the head consists of separators only.\<close>

definition os_path_dirname :: "string \<Rightarrow> string" where
  "os_path_dirname p =
     (let head = rev (dropWhile (\<lambda>x. x \<noteq> sep) (rev p))
      in if head \<noteq> [] \<and> head \<noteq> replicate (length head) sep then rstrip sep head else head)"

subsection \<open>The process environment\<close>

text \<open>
  What the module reads from its process and never writes: \<open>os.environ\<close>,
  \<open>sys.platform\<close>, the password database used by \<open>os.path.expanduser\<close>, and the
  behaviour of the external programs it starts. A program is started with its
  argument vector in a working directory on a filesystem; it either cannot be
  started, or exits with a code, having written chunks to its stdout and stderr
  in some order and having changed the filesystem.
\<close>

datatype node = Dir nat | File nat | Link string

type_synonym filesystem = "string \<Rightarrow> node option"

datatype stream = Out | Err

datatype outcome = Launch_failed string | Exited int "(stream \<times> string) list"

record sys =
  environ :: "string \<Rightarrow> string option"
  sys_platform :: string
  pw_dir :: "string option"
  pw_name_dir :: "string \<Rightarrow> string option"
  run_process :: "string list \<Rightarrow> string \<Rightarrow> filesystem \<Rightarrow> outcome \<times> filesystem"

text \<open>
  \<open>posixpath.expanduser\<close>. A path that does not start with a tilde is returned as it
  is. \<open>~\<close> alone or \<open>~/...\<close> takes \<open>HOME\<close>, else the password entry of the current
  user; \<open>~name\<close> takes the entry of \<open>name\<close>. With no entry the path is unchanged.
  Trailing separators of the home directory are dropped and an empty result is \<open>/\<close>.
\<close>

definition expanduser :: "sys \<Rightarrow> string \<Rightarrow> string" where
  "expanduser s path =
     (if \<not> startswith path ''~'' then path
      else
        let name = takeWhile (\<lambda>x. x \<noteq> sep) (drop 1 path);
            i = 1 + length name;
            home = (if i = 1
                    then (case environ s ''HOME'' of Some h \<Rightarrow> Some h | None \<Rightarrow> pw_dir s)
                    else pw_name_dir s name)
        in case home of
             None \<Rightarrow> path
           | Some userhome \<Rightarrow>
               (let r = rstrip sep userhome @ drop i path in if r = [] then ''/'' else r))"

subsection \<open>Installation filesystem path utilities\<close>

definition get_base_install_path :: "sys \<Rightarrow> string \<Rightarrow> string" where
  "get_base_install_path s identifier =
     (case environ s ''SOLC_BASE_INSTALL_PATH'' of
        Some root \<Rightarrow> os_path_join root [''solc-'' @ identifier]
      | None \<Rightarrow> expanduser s (os_path_join ''~'' [''.py-helios-solc'', ''solc-'' @ identifier]))"

definition get_repository_path :: "sys \<Rightarrow> string \<Rightarrow> string" where
  "get_repository_path s identifier =
     os_path_join (get_base_install_path s identifier) [''source'']"

definition get_release_zipfile_path :: "sys \<Rightarrow> string \<Rightarrow> string" where
  "get_release_zipfile_path s identifier =
     os_path_join (get_base_install_path s identifier) [''release.zip'']"

definition get_extract_path :: "sys \<Rightarrow> string \<Rightarrow> string" where
  "get_extract_path s identifier =
     os_path_join (get_base_install_path s identifier) [''bin'']"

definition get_executable_path :: "sys \<Rightarrow> string \<Rightarrow> string" where
  "get_executable_path s identifier =
     (let extract_path = get_extract_path s identifier
      in os_path_join extract_path [''solc''])"

definition get_build_dir :: "sys \<Rightarrow> string \<Rightarrow> string" where
  "get_build_dir s identifier =
     (let repository_path = get_repository_path s identifier
      in os_path_join repository_path [''build''])"

definition get_built_executable_path :: "sys \<Rightarrow> string \<Rightarrow> string" where
  "get_built_executable_path s identifier =
     (let build_dir = get_build_dir s identifier
      in os_path_join build_dir [''solc'', ''solc''])"

text \<open>The seven locations of one version, in the order the module defines them.\<close>

definition install_paths :: "sys \<Rightarrow> string \<Rightarrow> string list" where
  "install_paths s identifier =
     [get_base_install_path s identifier,
      get_repository_path s identifier,
      get_release_zipfile_path s identifier,
      get_extract_path s identifier,
      get_executable_path s identifier,
      get_build_dir s identifier,
      get_built_executable_path s identifier]"

subsection \<open>Exceptions, values and the state of the process\<close>

text \<open>
  The exceptions the module raises itself (\<open>KeyError\<close>, \<open>ValueError\<close>, \<open>OSError\<close>)
  and those of the library calls it makes. \<open>CalledProcessError\<close> carries the exit
  code, the command and the captured output (\<open>None\<close> when nothing was captured).
\<close>

datatype py_error =
    KeyError string
  | ValueError string
  | OSError string
  | FileNotFoundError string
  | FileExistsError string
  | NotADirectoryError string
  | PermissionError string
  | CalledProcessError int "string list" "string option"

datatype pyval = PyNone | PyInt int | PyStr string

text \<open>
  The state the module changes: the working directory, the filesystem, what has been
  written to the terminal, and a log of the external commands started (with the exit
  code, or \<open>None\<close> when the program could not be started) and of the calls of
  \<open>os.symlink\<close>. The log is there to state what a run did; nothing reads it.
\<close>

datatype event = Exec "string list" "int option" | Symlink string string

record world =
  cwd :: string
  fs :: filesystem
  stdout :: "string list"
  stderr :: "string list"
  events :: "event list"

type_synonym 'a io = "world \<Rightarrow> (py_error + 'a) \<times> world"

definition io_return :: "'a \<Rightarrow> 'a io" where
  "io_return a w = (Inr a, w)"

definition io_raise :: "py_error \<Rightarrow> 'a io" where
  "io_raise e w = (Inl e, w)"

text \<open>Sequencing of statements: an exception ends the sequence.\<close>

definition io_bind :: "'a io \<Rightarrow> ('a \<Rightarrow> 'b io) \<Rightarrow> 'b io" where
  "io_bind m k w = (case m w of (Inl e, w') \<Rightarrow> (Inl e, w') | (Inr a, w') \<Rightarrow> k a w')"

definition py_print :: "string \<Rightarrow> unit io" where
  "py_print line w = (Inr (), w\<lparr>stdout := stdout w @ [line]\<rparr>)"

subsection \<open>The filesystem calls of \<open>os\<close> and \<open>os.path\<close>\<close>

text \<open>
  A filesystem maps absolute path strings to directories and files (with their
  permission bits) and symbolic links. Paths are compared as strings: \<open>.\<close>, \<open>..\<close>
  and doubled separators are not normalised. A relative path is taken from the working
  directory, the empty path names nothing, and a symbolic link in the last component
  is followed, at most \<open>MAXSYMLINKS\<close> times.
\<close>

definition MAXSYMLINKS :: nat where
  "MAXSYMLINKS = 40"

definition S_IEXEC :: nat where
  "S_IEXEC = 64"

definition S_IXALL :: nat where
  "S_IXALL = 73"

fun follow :: "nat \<Rightarrow> filesystem \<Rightarrow> string \<Rightarrow> (string \<times> node) option" where
  "follow 0 f p = None"
| "follow (Suc n) f p =
     (case f p of
        None \<Rightarrow> None
      | Some (Link t) \<Rightarrow> follow n f (join2 (os_path_dirname p) t)
      | Some nd \<Rightarrow> Some (p, nd))"

definition abspath :: "world \<Rightarrow> string \<Rightarrow> string" where
  "abspath w p = join2 (cwd w) p"

definition stat_node :: "world \<Rightarrow> string \<Rightarrow> (string \<times> node) option" where
  "stat_node w p = (if p = [] then None else follow (Suc MAXSYMLINKS) (fs w) (abspath w p))"

fun mode_of :: "node \<Rightarrow> nat" where
  "mode_of (Dir m) = m"
| "mode_of (File m) = m"
| "mode_of (Link t) = 511"

fun set_mode :: "node \<Rightarrow> nat \<Rightarrow> node" where
  "set_mode (Dir _) m = Dir m"
| "set_mode (File _) m = File m"
| "set_mode (Link t) m = Link t"

definition os_path_exists :: "world \<Rightarrow> string \<Rightarrow> bool" where
  "os_path_exists w p = (stat_node w p \<noteq> None)"

definition os_path_isfile :: "world \<Rightarrow> string \<Rightarrow> bool" where
  "os_path_isfile w p = (case stat_node w p of Some (_, File m) \<Rightarrow> True | _ \<Rightarrow> False)"

definition os_access_X_OK :: "world \<Rightarrow> string \<Rightarrow> bool" where
  "os_access_X_OK w p =
     (case stat_node w p of Some (_, nd) \<Rightarrow> mode_of nd AND S_IXALL \<noteq> 0 | None \<Rightarrow> False)"

definition os_stat_st_mode :: "string \<Rightarrow> nat io" where
  "os_stat_st_mode p w =
     (case stat_node w p of
        None \<Rightarrow> (Inl (FileNotFoundError p), w)
      | Some (q, nd) \<Rightarrow> (Inr (mode_of nd), w))"

definition os_chmod :: "string \<Rightarrow> nat \<Rightarrow> unit io" where
  "os_chmod p m w =
     (case stat_node w p of
        None \<Rightarrow> (Inl (FileNotFoundError p), w)
      | Some (q, nd) \<Rightarrow> (Inr (), w\<lparr>fs := (fs w)(q \<mapsto> set_mode nd m)\<rparr>))"

text \<open>The proper ancestors of a path: its prefixes that end before a separator.\<close>

fun dir_prefixes :: "string \<Rightarrow> string \<Rightarrow> string list" where
  "dir_prefixes pre [] = []"
| "dir_prefixes pre (c # cs) =
     (if c = sep \<and> pre \<noteq> [] \<and> \<not> endswith_char pre sep then [pre] else [])
     @ dir_prefixes (pre @ [c]) cs"

definition is_dir_at :: "world \<Rightarrow> string \<Rightarrow> bool" where
  "is_dir_at w p = (case stat_node w p of Some (_, Dir m) \<Rightarrow> True | _ \<Rightarrow> False)"

text \<open>
  \<open>os.makedirs(name)\<close> with the default \<open>exist_ok=False\<close>: the leaf must not exist,
  every ancestor that exists must be a directory, and the missing ancestors are
  created with the leaf (the umask is not modelled).
\<close>

definition os_makedirs :: "string \<Rightarrow> unit io" where
  "os_makedirs name w =
     (if name = [] then (Inl (FileNotFoundError name), w)
      else
        let a = abspath w name in
        if fs w a \<noteq> None then (Inl (FileExistsError name), w)
        else if list_ex (\<lambda>q. fs w q \<noteq> None \<and> \<not> is_dir_at w q) (dir_prefixes [] a)
        then (Inl (NotADirectoryError name), w)
        else (Inr (), w\<lparr>fs := foldl (\<lambda>f q. if f q = None then f(q \<mapsto> Dir 511) else f)
                                  (fs w) (dir_prefixes [] a @ [a])\<rparr>))"

text \<open>\<open>os.symlink(src, dst)\<close>: \<open>dst\<close> must not exist and its directory must.\<close>

definition os_symlink :: "string \<Rightarrow> string \<Rightarrow> unit io" where
  "os_symlink src dst w =
     (let w1 = w\<lparr>events := events w @ [Symlink src dst]\<rparr>; a = abspath w dst in
      if dst = [] then (Inl (FileNotFoundError dst), w1)
      else if fs w a \<noteq> None then (Inl (FileExistsError dst), w1)
      else (case stat_node w (os_path_dirname a) of
              None \<Rightarrow> (Inl (FileNotFoundError dst), w1)
            | Some (_, Dir m) \<Rightarrow> (Inr (), w1\<lparr>fs := (fs w)(a \<mapsto> Link src)\<rparr>)
            | Some _ \<Rightarrow> (Inl (NotADirectoryError dst), w1)))"

text \<open>\<open>os.getcwd()\<close> fails when the working directory has been removed;
  \<open>os.chdir(path)\<close> needs a directory that the process may search, and makes its
  resolved path the working directory. Search permission is read from the mode as
  \<open>os.access\<close> reads execute permission: which of the three classes of bits
  applies to the process is not modelled.\<close>

definition os_getcwd :: "string io" where
  "os_getcwd w =
     (case fs w (cwd w) of
        Some (Dir m) \<Rightarrow> (Inr (cwd w), w)
      | _ \<Rightarrow> (Inl (FileNotFoundError (cwd w)), w))"

definition os_chdir :: "string \<Rightarrow> unit io" where
  "os_chdir path w =
     (case stat_node w path of
        None \<Rightarrow> (Inl (FileNotFoundError path), w)
      | Some (q, Dir m) \<Rightarrow>
          if m AND S_IXALL = 0 then (Inl (PermissionError path), w)
          else (Inr (), w\<lparr>cwd := q\<rparr>)
      | Some _ \<Rightarrow> (Inl (NotADirectoryError path), w))"

subsection \<open>\<open>subprocess\<close>\<close>

text \<open>
  Where the child's stderr goes (\<open>None\<close>, \<open>PIPE\<close>, \<open>STDOUT\<close>, \<open>DEVNULL\<close>), and the
  keyword arguments the module's callers may forward; only the child's working
  directory is modelled.
\<close>

datatype redirect = Inherit | PIPE | STDOUT | DEVNULL

record proc_kwargs =
  kw_cwd :: "string option"

definition no_kwargs :: proc_kwargs where
  "no_kwargs = \<lparr>kw_cwd = None\<rparr>"

text \<open>Starting a child and waiting for it: the filesystem is what the child left,
  and the command is logged.\<close>

definition child_dir :: "proc_kwargs \<Rightarrow> world \<Rightarrow> string" where
  "child_dir kw w = (case kw_cwd kw of None \<Rightarrow> cwd w | Some d \<Rightarrow> abspath w d)"

definition spawn :: "sys \<Rightarrow> string list \<Rightarrow> proc_kwargs \<Rightarrow> world \<Rightarrow> outcome \<times> world" where
  "spawn s cmd kw w =
     (case run_process s cmd (child_dir kw w) (fs w) of
        (oc, f') \<Rightarrow>
          (oc, w\<lparr>fs := f',
                 events := events w @
                   [Exec cmd (case oc of Launch_failed _ \<Rightarrow> None | Exited rc _ \<Rightarrow> Some rc)]\<rparr>))"

text \<open>What the child wrote to the stream that is its stdout, in order: its stdout
  chunks, and its stderr chunks when stderr is redirected to stdout.\<close>

definition on_stdout :: "redirect \<Rightarrow> (stream \<times> string) list \<Rightarrow> string list" where
  "on_stdout r chunks = map snd (filter (\<lambda>(st, c). st = Out \<or> r = STDOUT) chunks)"

definition on_stderr :: "redirect \<Rightarrow> (stream \<times> string) list \<Rightarrow> string list" where
  "on_stderr r chunks = map snd (filter (\<lambda>(st, c). st = Err \<and> r = Inherit) chunks)"

text \<open>
  \<open>subprocess.check_call\<close>: the child inherits the terminal as its stdout, nothing
  is captured, and a nonzero exit code raises \<open>CalledProcessError(retcode, cmd)\<close>.
  \<open>subprocess.check_output\<close>: the child's stdout is a pipe, its content is returned,
  or carried by the \<open>CalledProcessError\<close> when the exit code is nonzero.
\<close>

definition subprocess_check_call ::
  "sys \<Rightarrow> string list \<Rightarrow> redirect \<Rightarrow> proc_kwargs \<Rightarrow> int io" where
  "subprocess_check_call s cmd r kw w =
     (case spawn s cmd kw w of
        (Launch_failed m, w') \<Rightarrow> (Inl (OSError m), w')
      | (Exited rc chunks, w') \<Rightarrow>
          (let w'' = w'\<lparr>stdout := stdout w' @ on_stdout r chunks,
                         stderr := stderr w' @ on_stderr r chunks\<rparr>
           in if rc \<noteq> 0 then (Inl (CalledProcessError rc cmd None), w'') else (Inr 0, w'')))"

definition subprocess_check_output ::
  "sys \<Rightarrow> string list \<Rightarrow> redirect \<Rightarrow> proc_kwargs \<Rightarrow> string io" where
  "subprocess_check_output s cmd r kw w =
     (case spawn s cmd kw w of
        (Launch_failed m, w') \<Rightarrow> (Inl (OSError m), w')
      | (Exited rc chunks, w') \<Rightarrow>
          (let output = concat (on_stdout r chunks);
               w'' = w'\<lparr>stderr := stderr w' @ on_stderr r chunks\<rparr>
           in if rc \<noteq> 0 then (Inl (CalledProcessError rc cmd (Some output)), w'')
              else (Inr output, w'')))"

subsection \<open>System utilities\<close>

text \<open>
  The context manager \<open>chdir\<close>. \<open>os.getcwd()\<close> runs before the \<open>try\<close>; the
  \<open>finally\<close> clause runs \<open>os.chdir(original_path)\<close> whether \<open>os.chdir(path)\<close> or
  the body raised or not, and an exception raised by the \<open>finally\<close> clause itself
  replaces the one that was propagating.
\<close>

definition chdir :: "string \<Rightarrow> 'a io \<Rightarrow> 'a io" where
  "chdir path body w =
     (case os_getcwd w of
        (Inl e, w0) \<Rightarrow> (Inl e, w0)
      | (Inr original_path, w0) \<Rightarrow>
          (case io_bind (os_chdir path) (\<lambda>_. body) w0 of
             (r, w1) \<Rightarrow>
               (case os_chdir original_path w1 of
                  (Inl e, w2) \<Rightarrow> (Inl e, w2)
                | (Inr _, w2) \<Rightarrow> (r, w2))))"

definition get_platform :: "sys \<Rightarrow> py_error + string" where
  "get_platform s =
     (if startswith (sys_platform s) ''linux'' then Inr LINUX
      else if sys_platform s = OSX then Inr OSX
      else if sys_platform s = WINDOWS then Inr WINDOWS
      else Inl (KeyError (''Unknown platform: '' @ sys_platform s)))"

definition is_exe :: "world \<Rightarrow> string \<Rightarrow> bool" where
  "is_exe w fpath = (os_path_isfile w fpath \<and> os_access_X_OK w fpath)"

text \<open>\<open>os.environ["PATH"]\<close> raises \<open>KeyError\<close> when the variable is not set.\<close>

definition is_executable_available :: "sys \<Rightarrow> string \<Rightarrow> world \<Rightarrow> py_error + bool" where
  "is_executable_available s program w =
     (let fpath = os_path_dirname program in
      if fpath \<noteq> [] then Inr (is_exe w program)
      else (case environ s ''PATH'' of
              None \<Rightarrow> Inl (KeyError ''PATH'')
            | Some path_var \<Rightarrow>
                Inr (list_ex (\<lambda>path. is_exe w (os_path_join (strip (CHR 0x22) path) [program]))
                       (split_on (CHR '':'') path_var))))"

definition ensure_path_exists :: "string \<Rightarrow> bool io" where
  "ensure_path_exists dir_path w =
     (if \<not> os_path_exists w dir_path
      then io_bind (os_makedirs dir_path) (\<lambda>_. io_return True) w
      else (Inr False, w))"

definition ensure_parent_dir_exists :: "string \<Rightarrow> unit io" where
  "ensure_parent_dir_exists path =
     io_bind (ensure_path_exists (os_path_dirname path)) (\<lambda>_. io_return ())"

text \<open>\<open>if message:\<close> holds for a message that is neither \<open>None\<close> nor empty.\<close>

definition print_message :: "string option \<Rightarrow> unit io" where
  "print_message message =
     (case message of
        None \<Rightarrow> io_return ()
      | Some m \<Rightarrow> if m \<noteq> [] then py_print m else io_return ())"

definition check_subprocess_call ::
  "sys \<Rightarrow> string list \<Rightarrow> string option \<Rightarrow> redirect \<Rightarrow> proc_kwargs \<Rightarrow> int io" where
  "check_subprocess_call s command message stderr_arg proc_kwargs =
     io_bind (print_message message) (\<lambda>_.
     io_bind (py_print (''Executing: '' @ str_join '' '' command)) (\<lambda>_.
     subprocess_check_call s command STDOUT proc_kwargs))"

definition check_subprocess_output ::
  "sys \<Rightarrow> string list \<Rightarrow> string option \<Rightarrow> redirect \<Rightarrow> proc_kwargs \<Rightarrow> string io" where
  "check_subprocess_output s command message stderr_arg proc_kwargs =
     io_bind (print_message message) (\<lambda>_.
     io_bind (py_print (''Executing: '' @ str_join '' '' command)) (\<lambda>_.
     subprocess_check_output s command STDOUT proc_kwargs))"

definition chmod_plus_x :: "string \<Rightarrow> unit io" where
  "chmod_plus_x executable_path =
     io_bind (os_stat_st_mode executable_path) (\<lambda>st_mode.
     os_chmod executable_path (st_mode OR S_IEXEC))"

definition is_git_repository :: "world \<Rightarrow> string \<Rightarrow> bool" where
  "is_git_repository w path =
     (let git_dir = os_path_join path [''.git''] in os_path_exists w git_dir)"

subsection \<open>Installation primitives\<close>

definition clone_command :: "sys \<Rightarrow> string \<Rightarrow> string list" where
  "clone_command s identifier =
     [''git'', ''clone'', ''--recurse-submodules'', ''--branch'', identifier, ''--depth'', ''10'',
      SOLIDITY_GIT_URI, get_repository_path s identifier]"

definition clone_solidity_repository :: "sys \<Rightarrow> string \<Rightarrow> int io" where
  "clone_solidity_repository s identifier w =
     (case is_executable_available s ''git'' w of
        Inl e \<Rightarrow> (Inl e, w)
      | Inr available \<Rightarrow>
          if \<not> available then (Inl (OSError ''The `git` is required but was not found''), w)
          else
            (let repository_path = get_repository_path s identifier in
             io_bind (ensure_parent_dir_exists repository_path) (\<lambda>_.
             check_subprocess_call s (clone_command s identifier)
               (Some (''Checking out solidity repository @ '' @ identifier)) STDOUT no_kwargs) w))"

definition DOWNLOAD_STATIC_RELEASE_URI :: "string \<Rightarrow> string" where
  "DOWNLOAD_STATIC_RELEASE_URI identifier =
     ''https://github.com/Helios-Protocol/solidity/releases/download/'' @ identifier
       @ ''/solc-static-linux''"

definition download_static_release :: "sys \<Rightarrow> string \<Rightarrow> int io" where
  "download_static_release s identifier =
     (let download_uri = DOWNLOAD_STATIC_RELEASE_URI identifier;
          static_binary_path = get_executable_path s identifier in
      io_bind (ensure_parent_dir_exists static_binary_path) (\<lambda>_.
      check_subprocess_call s [''wget'', download_uri, ''-c'', ''-O'', static_binary_path]
        (Some (''Downloading static linux binary from '' @ download_uri)) STDOUT no_kwargs))"

definition install_deps_command :: "sys \<Rightarrow> string \<Rightarrow> string list" where
  "install_deps_command s identifier =
     [''sh'', os_path_join (get_repository_path s identifier) [''scripts'', ''install_deps.sh'']]"

definition install_solc_dependencies :: "sys \<Rightarrow> string \<Rightarrow> int io" where
  "install_solc_dependencies s identifier w =
     (let repository_path = get_repository_path s identifier in
      if \<not> is_git_repository w repository_path
      then (Inl (OSError (''Git repository not found @ '' @ repository_path)), w)
      else
        chdir repository_path
          (let install_deps_script_path =
                 os_path_join repository_path [''scripts'', ''install_deps.sh''] in
           check_subprocess_call s (install_deps_command s identifier)
             (Some (''Running dependency installation script `install_deps.sh` @ ''
                    @ install_deps_script_path)) STDOUT no_kwargs) w)"

definition install_solc_from_static_linux :: "sys \<Rightarrow> string \<Rightarrow> pyval io" where
  "install_solc_from_static_linux s identifier =
     io_bind (download_static_release s identifier) (\<lambda>_.
     let executable_path = get_executable_path s identifier in
     io_bind (chmod_plus_x executable_path) (\<lambda>_.
     io_bind (check_subprocess_output s [executable_path, ''--version'']
                (Some (''Checking installed executable version @ '' @ executable_path))
                STDOUT no_kwargs) (\<lambda>_.
     io_bind (py_print (''solc successfully installed at: '' @ executable_path)) (\<lambda>_.
     io_return PyNone))))"

definition cmake_command :: "string list" where
  "cmake_command = [''cmake'', ''..'']"

definition make_command :: "string list" where
  "make_command = [''make'']"

definition build_solc_from_source :: "sys \<Rightarrow> string \<Rightarrow> pyval io" where
  "build_solc_from_source s identifier =
     io_bind (\<lambda>w. if \<not> is_git_repository w (get_repository_path s identifier)
                  then io_bind (clone_solidity_repository s identifier) (\<lambda>_. io_return ()) w
                  else (Inr (), w)) (\<lambda>_.
     let build_dir = get_build_dir s identifier in
     io_bind (ensure_path_exists build_dir) (\<lambda>_.
     io_bind (chdir build_dir
                (io_bind (check_subprocess_call s cmake_command
                            (Some ''Running cmake build command'') STDOUT no_kwargs) (\<lambda>_.
                 check_subprocess_call s make_command
                   (Some ''Running make command'') STDOUT no_kwargs))) (\<lambda>_.
     let built_executable_path = get_built_executable_path s identifier in
     io_bind (chmod_plus_x built_executable_path) (\<lambda>_.
     let executable_path = get_executable_path s identifier in
     io_bind (ensure_parent_dir_exists executable_path) (\<lambda>_.
     io_bind (os_symlink built_executable_path executable_path) (\<lambda>_.
     io_bind (chmod_plus_x executable_path) (\<lambda>_.
     io_return PyNone)))))))"

definition install_v100_5_12_linux :: "sys \<Rightarrow> pyval io" where
  "install_v100_5_12_linux s = install_solc_from_static_linux s V100_5_12"

definition install_v100_5_15_linux :: "sys \<Rightarrow> pyval io" where
  "install_v100_5_15_linux s = install_solc_from_static_linux s V100_5_15"

definition install_from_source :: "sys \<Rightarrow> string \<Rightarrow> pyval io" where
  "install_from_source s identifier =
     io_bind (\<lambda>w. if \<not> is_git_repository w (get_repository_path s identifier)
                  then io_bind (clone_solidity_repository s identifier) (\<lambda>_. io_return ()) w
                  else (Inr (), w)) (\<lambda>_.
     io_bind (install_solc_dependencies s identifier) (\<lambda>_.
     io_bind (build_solc_from_source s identifier) (\<lambda>_.
     let executable_path = get_executable_path s identifier in
     io_bind (py_print (''Succesfully installed solc @ `'' @ executable_path @ ''`'')) (\<lambda>_.
     io_return PyNone))))"

definition install_v100_5_12_osx :: "sys \<Rightarrow> pyval io" where
  "install_v100_5_12_osx s = install_from_source s V100_5_12"

definition install_v100_5_15_osx :: "sys \<Rightarrow> pyval io" where
  "install_v100_5_15_osx s = install_from_source s V100_5_15"

subsection \<open>The dispatch table and \<open>install_solc\<close>\<close>

text \<open>The dictionary of dictionaries, in insertion order; the values are the
  partial applications, which take no further argument.\<close>

definition INSTALL_FUNCTIONS :: "sys \<Rightarrow> (string \<times> (string \<times> pyval io) list) list" where
  "INSTALL_FUNCTIONS s =
     [(LINUX, [(V100_5_12, install_v100_5_12_linux s), (V100_5_15, install_v100_5_15_linux s)]),
      (OSX, [(V100_5_12, install_v100_5_12_osx s), (V100_5_15, install_v100_5_15_osx s)])]"

definition unsupported_platform_message :: "sys \<Rightarrow> string \<Rightarrow> string" where
  "unsupported_platform_message s platform =
     ''Installation of solidity is not supported on your platform ('' @ platform @ ''). ''
     @ ''Supported platforms are: '' @ str_join '', '' (sort (map fst (INSTALL_FUNCTIONS s)))"

definition unsupported_version_message :: "string \<Rightarrow> string list \<Rightarrow> string" where
  "unsupported_version_message identifier versions =
     ''Installation of solidity=='' @ identifier @ '' is not supported.  Must be one of ''
     @ str_join '', '' (sort versions)"

text \<open>\<open>install_solc\<close> ends with the call \<open>install_fn()\<close> as a statement: what the
  strategy returns is dropped and the function returns \<open>None\<close>.\<close>

definition install_solc :: "sys \<Rightarrow> string \<Rightarrow> string option \<Rightarrow> pyval io" where
  "install_solc s identifier platform w =
     (case (case platform of None \<Rightarrow> get_platform s | Some p \<Rightarrow> Inr p) of
        Inl e \<Rightarrow> (Inl e, w)
      | Inr platform \<Rightarrow>
          (case map_of (INSTALL_FUNCTIONS s) platform of
             None \<Rightarrow> (Inl (ValueError (unsupported_platform_message s platform)), w)
           | Some fns \<Rightarrow>
               (case map_of fns identifier of
                  None \<Rightarrow>
                    (Inl (ValueError (unsupported_version_message identifier (map fst fns))), w)
                | Some install_fn \<Rightarrow>
                    io_bind install_fn (\<lambda>_. io_return PyNone) w)))"

subsection \<open>Auxiliary notions for the statements\<close>

text \<open>The separator \<open>posixpath.join\<close> puts after a path, and the tails the
  derived locations add to the base directory of a version.\<close>

definition gap :: "string \<Rightarrow> string" where
  "gap p = (if p = [] \<or> endswith_char p sep then [] else [sep])"

definition tails :: "string set" where
  "tails = {[], ''/source'', ''/release.zip'', ''/bin'', ''/bin/solc'', ''/source/build'',
            ''/source/build/solc/solc''}"

subsection \<open>Concrete environments\<close>

text \<open>A machine with the install root \<open>/opt\<close>, git in \<open>/usr/bin\<close>, and external
  programs that all succeed silently and change nothing.\<close>

definition quiet_process :: "string list \<Rightarrow> string \<Rightarrow> filesystem \<Rightarrow> outcome \<times> filesystem" where
  "quiet_process cmd d f = (Exited 0 [], f)"

definition sys_opt :: sys where
  "sys_opt =
     \<lparr>environ = map_of [(''SOLC_BASE_INSTALL_PATH'', ''/opt''), (''PATH'', ''/usr/bin'')],
      sys_platform = ''linux'', pw_dir = None, pw_name_dir = (\<lambda>_. None),
      run_process = quiet_process\<rparr>"

text \<open>A process in \<open>/home/u\<close> on a filesystem where nothing is installed yet.\<close>

definition world0 :: world where
  "world0 =
     \<lparr>cwd = ''/home/u'',
      fs = map_of [(''/'', Dir 493), (''/opt'', Dir 493), (''/home'', Dir 493),
                   (''/home/u'', Dir 493), (''/usr/bin/git'', File 493)],
      stdout = [], stderr = [], events = []\<rparr>"

text \<open>A linux machine: wget saves the file named by its last argument, every other
  program prints a line and succeeds.\<close>

definition linux_tools :: "string list \<Rightarrow> string \<Rightarrow> filesystem \<Rightarrow> outcome \<times> filesystem" where
  "linux_tools cmd d f =
     (if take 1 cmd = [''wget''] then (Exited 0 [(Err, ''saved'')], f(last cmd \<mapsto> File 420))
      else (Exited 0 [(Out, ''Version: 0.5.12'')], f))"

definition sys_linux :: sys where
  "sys_linux = sys_opt\<lparr>run_process := linux_tools\<rparr>"

text \<open>A machine where make writes to both streams and exits with code 2.\<close>

definition failing_make :: "string list \<Rightarrow> string \<Rightarrow> filesystem \<Rightarrow> outcome \<times> filesystem" where
  "failing_make cmd d f =
     (if cmd = [''make''] then (Exited 2 [(Out, ''compiling''), (Err, ''error'')], f)
      else (Exited 0 [], f))"

definition sys_failing_make :: sys where
  "sys_failing_make = sys_opt\<lparr>run_process := failing_make\<rparr>"

text \<open>The same process after a checkout of \<open>v100.5.12\<close> exists under \<open>/opt\<close>.\<close>

definition world_repo :: world where
  "world_repo =
     \<lparr>cwd = ''/home/u'',
      fs = map_of [(''/'', Dir 493), (''/opt'', Dir 493), (''/home'', Dir 493),
                   (''/home/u'', Dir 493), (''/usr/bin/git'', File 493),
                   (''/opt/solc-v100.5.12'', Dir 493),
                   (''/opt/solc-v100.5.12/source'', Dir 493),
                   (''/opt/solc-v100.5.12/source/.git'', Dir 493)],
      stdout = [], stderr = [], events = []\<rparr>"



text \<open>A machine where every program takes all permissions from the directory
  \<open>/home/u\<close> and exits with code 1.\<close>

definition locks_home :: "string list \<Rightarrow> string \<Rightarrow> filesystem \<Rightarrow> outcome \<times> filesystem" where
  "locks_home cmd d f = (Exited 1 [(Err, ''locking'')], f(''/home/u'' \<mapsto> Dir 0))"

definition sys_locks_home :: sys where
  "sys_locks_home = sys_opt\<lparr>run_process := locks_home\<rparr>"

text \<open>A machine where cmake removes the directory \<open>/home/u\<close> and exits with code 1,
  and every other program succeeds.\<close>

definition cmake_removes_home ::
  "string list \<Rightarrow> string \<Rightarrow> filesystem \<Rightarrow> outcome \<times> filesystem" where
  "cmake_removes_home cmd d f =
     (if cmd = [''cmake'', ''..''] then (Exited 1 [(Err, ''cleaning up'')], f(''/home/u'' := None))
      else (Exited 0 [], f))"

definition sys_cmake_removes_home :: sys where
  "sys_cmake_removes_home = sys_opt\<lparr>run_process := cmake_removes_home\<rparr>"

subsection \<open>Notions about the log of a run\<close>

text \<open>The events that are a \<open>git clone\<close> command and those that are a call of
  \<open>os.symlink\<close>; a step that adds to the log only events of one kind; and a result
  that accounts for the exit codes logged: every command logged exited with code 0,
  or the result is the error of that command.\<close>

fun is_clone :: "event \<Rightarrow> bool" where
  "is_clone (Exec cmd c) = (take 2 cmd = [''git'', ''clone''])"
| "is_clone (Symlink src dst) = False"

fun is_symlink :: "event \<Rightarrow> bool" where
  "is_symlink (Exec cmd c) = False"
| "is_symlink (Symlink src dst) = True"

definition adds_only_at :: "(event \<Rightarrow> bool) \<Rightarrow> 'a io \<Rightarrow> world \<Rightarrow> bool" where
  "adds_only_at P m w = (\<exists>evs. events (snd (m w)) = events w @ evs \<and> list_all P evs)"

definition adds_only :: "(event \<Rightarrow> bool) \<Rightarrow> 'a io \<Rightarrow> bool" where
  "adds_only P m = (\<forall>w. adds_only_at P m w)"

definition explains :: "(py_error + 'a) \<Rightarrow> event list \<Rightarrow> bool" where
  "explains r evs =
     (\<forall>cmd c. Exec cmd c \<in> set evs \<longrightarrow>
        c = Some 0
        \<or> (\<exists>rc. c = Some rc \<and> rc \<noteq> 0 \<and> r = Inl (CalledProcessError rc cmd None))
        \<or> (c = None \<and> (\<exists>m. r = Inl (OSError m))))"



section \<open>Properties\<close>

subsection \<open>Shapes of the computed paths\<close>

lemma endswith_char_last: "endswith_char s c = (s \<noteq> [] \<and> last s = c)"
  by (cases s rule: rev_cases) (simp_all add: endswith_char_def)

lemma join_one:
  "\<not> startswith b [sep] \<Longrightarrow> os_path_join p [b] = p @ gap p @ b"
  by (simp add: os_path_join_def join2_def gap_def)

lemma base_shape:
  "\<exists>P. \<forall>V. get_base_install_path s V = P @ ''solc-'' @ V"
proof (cases "environ s ''SOLC_BASE_INSTALL_PATH''")
  case (Some root)
  then show ?thesis
    by (intro exI[of _ "root @ (if root = [] \<or> endswith_char root sep then [] else [sep])"])
       (simp add: get_base_install_path_def os_path_join_def join2_def startswith_def sep_def)
next
  case None
  have j: "os_path_join ''~'' [''.py-helios-solc'', ''solc-'' @ V] = ''~/.py-helios-solc/solc-'' @ V"
    for V
    by (simp add: os_path_join_def join2_def startswith_def sep_def endswith_char_def)
  have e: "get_base_install_path s V = expanduser s (''~/.py-helios-solc/solc-'' @ V)" for V
    using None by (simp only: get_base_install_path_def j option.case)
  show ?thesis
  proof (cases "environ s ''HOME''")
    case (Some h)
    then show ?thesis
      by (intro exI[of _ "rstrip sep h @ ''/.py-helios-solc/''"])
         (simp add: e expanduser_def startswith_def sep_def)
  next
    case HomeNone: None
    show ?thesis
    proof (cases "pw_dir s")
      case (Some h)
      with HomeNone show ?thesis
        by (intro exI[of _ "rstrip sep h @ ''/.py-helios-solc/''"])
           (simp add: e expanduser_def startswith_def sep_def)
    next
      case PwNone: None
      with HomeNone show ?thesis
        by (intro exI[of _ "''~/.py-helios-solc/''"])
           (simp add: e expanduser_def startswith_def sep_def)
    qed
  qed
qed

lemma repository_shape:
  "get_repository_path s V = get_base_install_path s V @ gap (get_base_install_path s V) @ ''source''"
  by (simp add: get_repository_path_def join_one startswith_def sep_def)

lemma zipfile_shape:
  "get_release_zipfile_path s V =
     get_base_install_path s V @ gap (get_base_install_path s V) @ ''release.zip''"
  by (simp add: get_release_zipfile_path_def join_one startswith_def sep_def)

lemma extract_shape:
  "get_extract_path s V = get_base_install_path s V @ gap (get_base_install_path s V) @ ''bin''"
  by (simp add: get_extract_path_def join_one startswith_def sep_def)

lemma executable_shape:
  "get_executable_path s V =
     get_base_install_path s V @ gap (get_base_install_path s V) @ ''bin/solc''"
  by (simp add: get_executable_path_def extract_shape join_one startswith_def sep_def gap_def
      endswith_char_last)

lemma build_dir_shape:
  "get_build_dir s V =
     get_base_install_path s V @ gap (get_base_install_path s V) @ ''source/build''"
  by (simp add: get_build_dir_def repository_shape join_one startswith_def sep_def gap_def
      endswith_char_last)

lemma built_executable_shape:
  "get_built_executable_path s V =
     get_base_install_path s V @ gap (get_base_install_path s V) @ ''source/build/solc/solc''"
  by (simp add: get_built_executable_path_def build_dir_shape os_path_join_def join2_def
      startswith_def sep_def gap_def endswith_char_last)

lemmas path_shapes = repository_shape zipfile_shape extract_shape executable_shape
  build_dir_shape built_executable_shape

lemma gap_base:
  assumes "sep \<notin> set V" "get_base_install_path s V = P @ ''solc-'' @ V"
  shows "gap (get_base_install_path s V) = [sep]"
proof -
  have "last (''solc-'' @ V) \<noteq> sep"
    using assms(1) by (cases V rule: rev_cases) (auto simp: sep_def)
  then have "last (P @ ''solc-'' @ V) \<noteq> sep" by simp
  then show ?thesis
    by (simp add: assms(2) gap_def endswith_char_last)
qed

lemma install_paths_shape:
  assumes "sep \<notin> set V" "get_base_install_path s V = P @ ''solc-'' @ V"
  shows "set (install_paths s V) = (\<lambda>t. P @ ''solc-'' @ V @ t) ` tails"
  using gap_base[OF assms] assms(2)
  by (simp add: install_paths_def path_shapes tails_def sep_def)

lemma takeWhile_tail:
  assumes "sep \<notin> set V" "t \<in> tails"
  shows "takeWhile (\<lambda>x. x \<noteq> sep) (V @ t) = V"
proof -
  have "t = [] \<or> hd t = sep" using assms(2) by (auto simp: tails_def sep_def)
  then have "takeWhile (\<lambda>x. x \<noteq> sep) t = []" by (cases t) auto
  moreover have "takeWhile (\<lambda>x. x \<noteq> sep) (V @ t) = V @ takeWhile (\<lambda>x. x \<noteq> sep) t"
    using assms(1) by (intro takeWhile_append2) auto
  ultimately show ?thesis by simp
qed

subsection \<open>Path Resolver\<close>

text \<open>
  Claim C1, as amended. The claim allows any non-empty identifiers; it fails when an
  identifier contains the path separator, since \<open>a/bin\<close> has as base directory the
  extract directory of \<open>a\<close>. For two different version identifiers that do not
  contain \<open>/\<close>, the seven paths of one (base install path, repository path, release
  zipfile path, extract path, executable path, build dir, built executable path) and
  the seven paths of the other have no path in common, whatever the install root is.
\<close>

theorem install_paths_disjoint:
  assumes "CHR ''/'' \<notin> set V1" "CHR ''/'' \<notin> set V2" "V1 \<noteq> V2"
  shows "set (install_paths s V1) \<inter> set (install_paths s V2) = {}"
proof -
  obtain P where P: "\<And>V. get_base_install_path s V = P @ ''solc-'' @ V"
    using base_shape by blast
  have n1: "sep \<notin> set V1" and n2: "sep \<notin> set V2" using assms by (simp_all add: sep_def)
  { fix t1 t2 assume t: "t1 \<in> tails" "t2 \<in> tails"
      and eq: "P @ ''solc-'' @ V1 @ t1 = P @ ''solc-'' @ V2 @ t2"
    from eq have "V1 @ t1 = V2 @ t2" by simp
    then have "takeWhile (\<lambda>x. x \<noteq> sep) (V1 @ t1) = takeWhile (\<lambda>x. x \<noteq> sep) (V2 @ t2)"
      by simp
    then have "V1 = V2" using t n1 n2 by (simp add: takeWhile_tail)
    with assms(3) have False by simp }
  then show ?thesis
    unfolding install_paths_shape[OF n1 P] install_paths_shape[OF n2 P] by blast
qed

theorem install_paths_disjoint_witness:
  "CHR ''/'' \<notin> set V100_5_12 \<and> CHR ''/'' \<notin> set V100_5_15 \<and> V100_5_12 \<noteq> V100_5_15 \<and>
   set (install_paths sys_opt V100_5_12) \<inter> set (install_paths sys_opt V100_5_15) = {}"
  using install_paths_disjoint [of V100_5_12 V100_5_15 sys_opt]
  by (simp add: V100_5_12_def V100_5_15_def)

text \<open>The claim as stated fails: \<open>a\<close> and \<open>a/bin\<close> are different non-empty
  identifiers, and the base install path of the second is the extract path of the
  first.\<close>

theorem install_paths_overlap_counterexample:
  "''a'' \<noteq> ''a/bin'' \<and> ''a'' \<noteq> [] \<and> ''a/bin'' \<noteq> [] \<and>
   get_base_install_path sys_opt ''a/bin'' = get_extract_path sys_opt ''a'' \<and>
   set (install_paths sys_opt ''a'') \<inter> set (install_paths sys_opt ''a/bin'') \<noteq> {}"
proof -
  have e: "get_base_install_path sys_opt ''a/bin'' = get_extract_path sys_opt ''a''"
    by (simp add: get_base_install_path_def get_extract_path_def sys_opt_def os_path_join_def
        join2_def startswith_def endswith_char_def sep_def)
  have "get_extract_path sys_opt ''a'' \<in> set (install_paths sys_opt ''a'')"
    by (simp add: install_paths_def)
  moreover have "get_base_install_path sys_opt ''a/bin'' \<in> set (install_paths sys_opt ''a/bin'')"
    by (simp add: install_paths_def)
  ultimately show ?thesis using e by auto
qed

text \<open>
  Claim C10. For every version identifier, the base install path is a strict prefix
  of the repository path, the release zipfile path, the extract path, the executable
  path, the build dir and the built executable path of that identifier.
\<close>

theorem derived_paths_under_base:
  "strict_prefix (get_base_install_path s V) (get_repository_path s V) \<and>
   strict_prefix (get_base_install_path s V) (get_release_zipfile_path s V) \<and>
   strict_prefix (get_base_install_path s V) (get_extract_path s V) \<and>
   strict_prefix (get_base_install_path s V) (get_executable_path s V) \<and>
   strict_prefix (get_base_install_path s V) (get_build_dir s V) \<and>
   strict_prefix (get_base_install_path s V) (get_built_executable_path s V)"
  by (simp add: path_shapes strict_prefix_def)

subsection \<open>Install Dispatcher\<close>

lemma sorted_versions:
  "sort [V100_5_12, V100_5_15] = [''v100.5.12'', ''v100.5.15'']"
  by (simp add: V100_5_12_def V100_5_15_def)

lemma sorted_platforms:
  "sort (map fst (INSTALL_FUNCTIONS s)) = [''darwin'', ''linux'']"
  by (simp add: INSTALL_FUNCTIONS_def LINUX_def OSX_def)

lemma table_lookup:
  "map_of (INSTALL_FUNCTIONS s) platform = Some fns \<Longrightarrow>
   map fst fns = [V100_5_12, V100_5_15]"
  by (auto simp: INSTALL_FUNCTIONS_def split: if_splits)

text \<open>
  Claim C2, as amended. The claim says that \<open>install_solc\<close> returns the canonical
  executable path; the function has no \<open>return\<close> statement. For every registered
  (platform, version) pair, when the dispatched strategy function completes without
  raising, \<open>install_solc(identifier, platform)\<close> returns \<open>None\<close> and leaves the
  state the strategy left.
\<close>

theorem install_solc_returns_none:
  assumes "map_of (INSTALL_FUNCTIONS s) platform = Some fns"
      and "map_of fns identifier = Some install_fn"
      and "install_fn w = (Inr v, w')"
  shows "install_solc s identifier (Some platform) w = (Inr PyNone, w')"
  using assms by (simp add: install_solc_def io_bind_def io_return_def)

theorem install_solc_returns_none_witness:
  "map_of (INSTALL_FUNCTIONS sys_linux) LINUX =
     Some [(V100_5_12, install_v100_5_12_linux sys_linux),
           (V100_5_15, install_v100_5_15_linux sys_linux)]
   \<and> map_of [(V100_5_12, install_v100_5_12_linux sys_linux),
              (V100_5_15, install_v100_5_15_linux sys_linux)] V100_5_12
       = Some (install_v100_5_12_linux sys_linux)
   \<and> install_v100_5_12_linux sys_linux world0
       = (Inr PyNone, snd (install_v100_5_12_linux sys_linux world0))
   \<and> install_solc sys_linux V100_5_12 (Some LINUX) world0
       = (Inr PyNone, snd (install_v100_5_12_linux sys_linux world0))"
proof -
  have h1: "map_of (INSTALL_FUNCTIONS sys_linux) LINUX =
     Some [(V100_5_12, install_v100_5_12_linux sys_linux),
           (V100_5_15, install_v100_5_15_linux sys_linux)]"
    by (simp add: INSTALL_FUNCTIONS_def)
  have h2: "map_of [(V100_5_12, install_v100_5_12_linux sys_linux),
                    (V100_5_15, install_v100_5_15_linux sys_linux)] V100_5_12
        = Some (install_v100_5_12_linux sys_linux)"
    by simp
  have "fst (install_v100_5_12_linux sys_linux world0) = Inr PyNone"
    by code_simp
  then have h3: "install_v100_5_12_linux sys_linux world0 =
      (Inr PyNone, snd (install_v100_5_12_linux sys_linux world0))"
    by (simp add: prod_eq_iff)
  show ?thesis
    using h1 h2 h3 install_solc_returns_none [OF h1 h2 h3] by simp
qed

text \<open>The claim as stated fails: on the linux machine the strategy for \<open>v100.5.12\<close>
  completes without raising, and \<open>install_solc\<close> returns \<open>None\<close>, not the
  executable path.\<close>

theorem install_solc_returns_path_counterexample:
  "fst (install_v100_5_12_linux sys_linux world0) = Inr PyNone \<and>
   fst (install_solc sys_linux V100_5_12 (Some LINUX) world0) = Inr PyNone \<and>
   fst (install_solc sys_linux V100_5_12 (Some LINUX) world0)
     \<noteq> Inr (PyStr (get_executable_path sys_linux V100_5_12))"
proof -
  have a: "fst (install_v100_5_12_linux sys_linux world0) = Inr PyNone"
    by code_simp
  have b: "fst (install_solc sys_linux V100_5_12 (Some LINUX) world0) = Inr PyNone"
    by code_simp
  show ?thesis using a b by simp
qed

text \<open>
  Claim C3. For a platform that is a key of the dispatch table and a version
  identifier that is not registered under it, \<open>install_solc\<close> raises a
  \<open>ValueError\<close> whose message ends with the sorted, comma-separated list of the
  versions registered for that platform, which are \<open>v100.5.12\<close> and \<open>v100.5.15\<close>;
  the state is returned as it was, so no strategy function has run.
\<close>

theorem unregistered_version_rejected:
  assumes "map_of (INSTALL_FUNCTIONS s) platform = Some fns"
      and "map_of fns identifier = None"
  shows "install_solc s identifier (Some platform) w =
           (Inl (ValueError (''Installation of solidity=='' @ identifier
                   @ '' is not supported.  Must be one of ''
                   @ str_join '', '' (sort (map fst fns)))), w)
         \<and> sort (map fst fns) = [''v100.5.12'', ''v100.5.15'']
         \<and> set (map fst fns) = {v. map_of fns v \<noteq> None}"
proof -
  have "set (map fst fns) = {v. map_of fns v \<noteq> None}"
    by (auto simp: map_of_eq_None_iff)
  moreover have "sort (map fst fns) = [''v100.5.12'', ''v100.5.15'']"
    by (simp only: table_lookup[OF assms(1)] sorted_versions)
  moreover have "install_solc s identifier (Some platform) w =
           (Inl (ValueError (''Installation of solidity=='' @ identifier
                   @ '' is not supported.  Must be one of ''
                   @ str_join '', '' (sort (map fst fns)))), w)"
    using assms by (simp add: install_solc_def unsupported_version_message_def)
  ultimately show ?thesis by blast
qed

theorem unregistered_version_rejected_witness:
  "map_of (INSTALL_FUNCTIONS sys_opt) LINUX =
     Some [(V100_5_12, install_v100_5_12_linux sys_opt),
           (V100_5_15, install_v100_5_15_linux sys_opt)]
   \<and> map_of [(V100_5_12, install_v100_5_12_linux sys_opt),
              (V100_5_15, install_v100_5_15_linux sys_opt)] ''v0.4.24'' = None
   \<and> install_solc sys_opt ''v0.4.24'' (Some LINUX) world0 =
       (Inl (ValueError
          ''Installation of solidity==v0.4.24 is not supported.  Must be one of v100.5.12, v100.5.15''),
        world0)"
  using unregistered_version_rejected [of sys_opt LINUX
      "[(V100_5_12, install_v100_5_12_linux sys_opt),
        (V100_5_15, install_v100_5_15_linux sys_opt)]" "''v0.4.24''" world0]
  by (simp add: INSTALL_FUNCTIONS_def V100_5_12_def V100_5_15_def LINUX_def OSX_def)

text \<open>
  Claim C8. With \<open>platform=None\<close>: when \<open>sys.platform\<close> does not start with
  \<open>linux\<close> and is neither \<open>darwin\<close> nor \<open>win32\<close>, \<open>install_solc\<close> raises the
  \<open>KeyError\<close> of \<open>get_platform\<close> and the state is untouched; when it is \<open>win32\<close>,
  \<open>install_solc\<close> raises the unsupported-platform \<open>ValueError\<close> that lists the
  supported platforms; and \<open>win32\<close> is the only value of \<open>sys.platform\<close> for which
  detection succeeds with a platform that is not a key of the dispatch table.
\<close>

theorem autodetect_unknown_platform:
  "(\<not> startswith (sys_platform s) ''linux'' \<and> sys_platform s \<noteq> ''darwin''
      \<and> sys_platform s \<noteq> ''win32''
      \<longrightarrow> install_solc s identifier None w
            = (Inl (KeyError (''Unknown platform: '' @ sys_platform s)), w))
   \<and> (sys_platform s = ''win32''
      \<longrightarrow> install_solc s identifier None w =
            (Inl (ValueError
               (''Installation of solidity is not supported on your platform (win32). ''
                @ ''Supported platforms are: darwin, linux'')), w))
   \<and> ((\<exists>p. get_platform s = Inr p \<and> map_of (INSTALL_FUNCTIONS s) p = None)
        \<longleftrightarrow> sys_platform s = ''win32'')"
  by (auto simp: install_solc_def get_platform_def unsupported_platform_message_def
      sorted_platforms INSTALL_FUNCTIONS_def LINUX_def OSX_def WINDOWS_def startswith_def)

theorem autodetect_unknown_platform_witness:
  "\<not> startswith (sys_platform (sys_opt\<lparr>sys_platform := ''freebsd13''\<rparr>)) ''linux''
   \<and> sys_platform (sys_opt\<lparr>sys_platform := ''freebsd13''\<rparr>) \<noteq> ''darwin''
   \<and> sys_platform (sys_opt\<lparr>sys_platform := ''freebsd13''\<rparr>) \<noteq> ''win32''
   \<and> install_solc (sys_opt\<lparr>sys_platform := ''freebsd13''\<rparr>) V100_5_12 None world0
       = (Inl (KeyError ''Unknown platform: freebsd13''), world0)
   \<and> sys_platform (sys_opt\<lparr>sys_platform := ''win32''\<rparr>) = ''win32''
   \<and> install_solc (sys_opt\<lparr>sys_platform := ''win32''\<rparr>) V100_5_12 None world0
       = (Inl (ValueError
            ''Installation of solidity is not supported on your platform (win32). Supported platforms are: darwin, linux''),
          world0)"
  using autodetect_unknown_platform [of "sys_opt\<lparr>sys_platform := ''freebsd13''\<rparr>" V100_5_12 world0]
        autodetect_unknown_platform [of "sys_opt\<lparr>sys_platform := ''win32''\<rparr>" V100_5_12 world0]
  by (simp add: startswith_def)

subsection \<open>Process Runner\<close>

lemma on_stdout_STDOUT: "on_stdout STDOUT chunks = map snd chunks"
  by (induction chunks) (auto simp: on_stdout_def)

lemma printing_keeps_process_inputs:
  "io_bind (print_message message) (\<lambda>_. py_print line) w = (r, w1) \<Longrightarrow>
   r = Inr () \<and> fs w1 = fs w \<and> cwd w1 = cwd w \<and> events w1 = events w \<and> stderr w1 = stderr w"
  by (auto simp: io_bind_def print_message_def py_print_def io_return_def
      split: option.splits if_splits)

text \<open>
  Claim C6, as amended. The claim gives the error of both runner functions the
  captured output; \<open>subprocess.check_call\<close> captures nothing. When the command exits
  with a nonzero code, \<open>check_subprocess_call\<close> raises a \<open>CalledProcessError\<close>
  that carries the exit code and the full command vector and no output, and
  \<open>check_subprocess_output\<close> raises a \<open>CalledProcessError\<close> that carries the exit
  code, the full command vector and everything the child wrote to its stdout and
  stderr, merged into one stream in the order written.
\<close>

theorem runner_error_on_nonzero_exit:
  assumes "run_process s command (child_dir kw w) (fs w) = (Exited rc chunks, f')"
      and "rc \<noteq> 0"
  shows "fst (check_subprocess_call s command message r kw w)
           = Inl (CalledProcessError rc command None)
         \<and> fst (check_subprocess_output s command message r kw w)
           = Inl (CalledProcessError rc command (Some (concat (map snd chunks))))"
proof -
  obtain r1 w1 where p: "io_bind (print_message message)
      (\<lambda>_. py_print (''Executing: '' @ str_join '' '' command)) w = (r1, w1)"
    by (cases "io_bind (print_message message)
      (\<lambda>_. py_print (''Executing: '' @ str_join '' '' command)) w") auto
  note k = printing_keeps_process_inputs[OF p]
  have d: "child_dir kw w1 = child_dir kw w"
    using k by (simp add: child_dir_def abspath_def split: option.splits)
  have c: "check_subprocess_call s command message r kw w
             = subprocess_check_call s command STDOUT kw w1"
    using p k unfolding check_subprocess_call_def io_bind_def
    by (auto split: prod.splits sum.splits)
  have o: "check_subprocess_output s command message r kw w
             = subprocess_check_output s command STDOUT kw w1"
    using p k unfolding check_subprocess_output_def io_bind_def
    by (auto split: prod.splits sum.splits)
  show ?thesis
    using assms k d
    by (simp add: c o subprocess_check_call_def subprocess_check_output_def spawn_def
        on_stdout_STDOUT Let_def)
qed

theorem runner_error_on_nonzero_exit_witness:
  "run_process sys_failing_make [''make''] (child_dir no_kwargs world0) (fs world0)
     = (Exited 2 [(Out, ''compiling''), (Err, ''error'')], fs world0)
   \<and> (2::int) \<noteq> 0
   \<and> fst (check_subprocess_call sys_failing_make [''make''] None STDOUT no_kwargs world0)
       = Inl (CalledProcessError 2 [''make''] None)
   \<and> fst (check_subprocess_output sys_failing_make [''make''] None STDOUT no_kwargs world0)
       = Inl (CalledProcessError 2 [''make''] (Some ''compilingerror''))"
proof -
  have h: "run_process sys_failing_make [''make''] (child_dir no_kwargs world0) (fs world0)
     = (Exited 2 [(Out, ''compiling''), (Err, ''error'')], fs world0)"
    by (simp add: sys_failing_make_def failing_make_def)
  show ?thesis
    using h runner_error_on_nonzero_exit [OF h, of None STDOUT] by simp
qed

text \<open>The claim as stated fails for \<open>check_subprocess_call\<close>: make writes to both
  streams and exits with code 2, and the error carries no output.\<close>

theorem check_call_error_without_output_counterexample:
  "fst (check_subprocess_call sys_failing_make [''make''] None STDOUT no_kwargs world0)
     = Inl (CalledProcessError 2 [''make''] None)
   \<and> fst (check_subprocess_call sys_failing_make [''make''] None STDOUT no_kwargs world0)
     \<noteq> Inl (CalledProcessError 2 [''make''] (Some ''compilingerror''))"
  by code_simp

text \<open>
  Claim C9. The \<open>stderr\<close> parameter of \<open>check_subprocess_call\<close> and of
  \<open>check_subprocess_output\<close> has no effect: with the same command, message and
  keyword arguments, any two values of it give the same function of the state.
\<close>

theorem stderr_parameter_ignored:
  "check_subprocess_call s command message stderr1 kw
     = check_subprocess_call s command message stderr2 kw
   \<and> check_subprocess_output s command message stderr1 kw
     = check_subprocess_output s command message stderr2 kw"
  by (simp add: check_subprocess_call_def check_subprocess_output_def)

subsection \<open>The scoped change of the working directory\<close>







text \<open>The same happens when the directory still exists but may no longer be
  searched: the script takes all permissions from it, \<open>os.chdir(original_path)\<close>
  raises \<open>PermissionError\<close>, and the process stays in the repository directory.\<close>

lemma chdir_not_restored_unsearchable:
  "fs (snd (install_solc_dependencies sys_locks_home V100_5_12 world_repo)) ''/home/u''
       = Some (Dir 0)
   \<and> fst (install_solc_dependencies sys_locks_home V100_5_12 world_repo)
       = Inl (PermissionError ''/home/u'')
   \<and> cwd (snd (install_solc_dependencies sys_locks_home V100_5_12 world_repo))
       = ''/opt/solc-v100.5.12/source''"
  by code_simp

subsection \<open>What the steps add to the log\<close>

lemma adds_only_atI:
  "events (snd (m w)) = events w @ evs \<Longrightarrow> list_all P evs \<Longrightarrow> adds_only_at P m w"
  by (auto simp: adds_only_at_def)

lemma silentI: "(\<And>w. events (snd (m w)) = events w) \<Longrightarrow> adds_only P m"
  by (auto simp: adds_only_def adds_only_at_def)

lemma adds_onlyD:
  assumes "adds_only P m" "m w = (r, w')"
  obtains evs where "events w' = events w @ evs" "list_all P evs"
proof -
  from assms(1) have "adds_only_at P m w" by (simp add: adds_only_def)
  with assms(2) show ?thesis using that by (auto simp: adds_only_at_def)
qed

lemma adds_only_bind_at:
  assumes "adds_only_at P m w" "\<And>a. adds_only P (k a)"
  shows "adds_only_at P (io_bind m k) w"
proof (cases "m w")
  case (Pair r w1)
  from assms(1) Pair obtain evs1 where e1: "events w1 = events w @ evs1" "list_all P evs1"
    by (auto simp: adds_only_at_def)
  show ?thesis
  proof (cases r)
    case (Inl e)
    with Pair e1 show ?thesis by (auto simp: adds_only_at_def io_bind_def)
  next
    case (Inr a)
    from assms(2)[of a] obtain evs2 where
      e2: "events (snd (k a w1)) = events w1 @ evs2" "list_all P evs2"
      by (auto simp: adds_only_def adds_only_at_def)
    have "events (snd (io_bind m k w)) = events w @ (evs1 @ evs2)"
      using Pair Inr e1 e2 by (simp add: io_bind_def)
    moreover have "list_all P (evs1 @ evs2)" using e1 e2 by simp
    ultimately show ?thesis by (rule adds_only_atI)
  qed
qed

lemma adds_only_bind:
  "adds_only P m \<Longrightarrow> (\<And>a. adds_only P (k a)) \<Longrightarrow> adds_only P (io_bind m k)"
  by (simp add: adds_only_def adds_only_bind_at)

lemma adds_only_return: "adds_only P (io_return a)"
  by (rule silentI) (simp add: io_return_def)

lemma adds_only_print: "adds_only P (py_print line)"
  by (rule silentI) (simp add: py_print_def)

lemma adds_only_print_message: "adds_only P (print_message message)"
  by (cases message) (simp_all add: print_message_def adds_only_return adds_only_print)

lemma adds_only_os_chdir: "adds_only P (os_chdir p)"
  by (rule silentI) (auto simp: os_chdir_def split: option.splits node.splits if_splits)

lemma adds_only_os_makedirs: "adds_only P (os_makedirs p)"
  by (rule silentI) (auto simp: os_makedirs_def Let_def)

lemma adds_only_os_stat: "adds_only P (os_stat_st_mode p)"
  by (rule silentI) (auto simp: os_stat_st_mode_def split: option.splits)

lemma adds_only_os_chmod: "adds_only P (os_chmod p m)"
  by (rule silentI) (auto simp: os_chmod_def split: option.splits)

lemma adds_only_chmod_plus_x: "adds_only P (chmod_plus_x p)"
  unfolding chmod_plus_x_def
  by (intro adds_only_bind adds_only_os_stat adds_only_os_chmod)

lemma adds_only_ensure_path_exists: "adds_only P (ensure_path_exists p)"
proof -
  have "adds_only P (io_bind (os_makedirs p) (\<lambda>_. io_return True))"
    by (intro adds_only_bind adds_only_os_makedirs adds_only_return)
  then show ?thesis
    by (auto simp: adds_only_def adds_only_at_def ensure_path_exists_def)
qed

lemma adds_only_ensure_parent_dir_exists: "adds_only P (ensure_parent_dir_exists p)"
  unfolding ensure_parent_dir_exists_def
  by (intro adds_only_bind adds_only_ensure_path_exists adds_only_return)

lemma adds_only_os_symlink: "P (Symlink src dst) \<Longrightarrow> adds_only P (os_symlink src dst)"
  by (auto simp: adds_only_def adds_only_at_def os_symlink_def Let_def
      split: option.splits node.splits)

lemma adds_only_subprocess_check_call:
  "(\<And>c. P (Exec cmd c)) \<Longrightarrow> adds_only P (subprocess_check_call s cmd r kw)"
  by (auto simp: adds_only_def adds_only_at_def subprocess_check_call_def spawn_def Let_def
      split: prod.splits outcome.splits)

lemma adds_only_check_subprocess_call:
  "(\<And>c. P (Exec cmd c)) \<Longrightarrow> adds_only P (check_subprocess_call s cmd msg r kw)"
  unfolding check_subprocess_call_def
  by (intro adds_only_bind adds_only_print_message adds_only_print
      adds_only_subprocess_check_call)

lemma adds_only_chdir:
  assumes "adds_only P body"
  shows "adds_only P (chdir p body)"
proof -
  have b: "adds_only P (io_bind (os_chdir p) (\<lambda>_. body))"
    by (intro adds_only_bind adds_only_os_chdir assms)
  show ?thesis
    unfolding adds_only_def
  proof
    fix w
    obtain r1 w1 where r: "io_bind (os_chdir p) (\<lambda>_. body) w = (r1, w1)"
      by (cases "io_bind (os_chdir p) (\<lambda>_. body) w") auto
    from b r obtain evs where e: "events w1 = events w @ evs" "list_all P evs"
      by (rule adds_onlyD)
    have c: "events (snd (os_chdir q w1)) = events w1" for q
      by (auto simp: os_chdir_def split: option.splits node.splits if_splits)
    have "events (snd (chdir p body w)) = events w \<or> events (snd (chdir p body w)) = events w1"
      using r c[of "cwd w"]
      by (auto simp: chdir_def os_getcwd_def split: option.splits node.splits prod.splits sum.splits)
    then show "adds_only_at P (chdir p body) w"
      using e by (auto simp: adds_only_at_def)
  qed
qed

lemmas adds_only_intros =
  adds_only_bind adds_only_return adds_only_print adds_only_chmod_plus_x
  adds_only_ensure_path_exists adds_only_ensure_parent_dir_exists adds_only_os_symlink
  adds_only_check_subprocess_call adds_only_chdir



lemma io_bind_cases:
  assumes "io_bind m k w = (r, w')"
  obtains (Raise) e where "m w = (Inl e, w')" "r = Inl e"
        | (Next) a w1 where "m w = (Inr a, w1)" "k a w1 = (r, w')"
  using assms by (auto simp: io_bind_def split: prod.splits sum.splits)

lemma subprocess_check_call_cases:
  assumes "subprocess_check_call s cmd rd kw w = (res, w')"
  shows "cwd w' = cwd w \<and> (\<exists>c. events w' = events w @ [Exec cmd c] \<and> explains res [Exec cmd c])"
  using assms
  by (auto simp: subprocess_check_call_def spawn_def Let_def explains_def
      split: prod.splits outcome.splits if_splits)

lemma check_subprocess_call_cases:
  assumes "check_subprocess_call s cmd msg rd kw w = (res, w')"
  shows "cwd w' = cwd w \<and> (\<exists>c. events w' = events w @ [Exec cmd c] \<and> explains res [Exec cmd c])"
proof -
  obtain r1 w1 where p: "io_bind (print_message msg)
      (\<lambda>_. py_print (''Executing: '' @ str_join '' '' cmd)) w = (r1, w1)"
    by (cases "io_bind (print_message msg)
      (\<lambda>_. py_print (''Executing: '' @ str_join '' '' cmd)) w") auto
  note k = printing_keeps_process_inputs[OF p]
  have c: "check_subprocess_call s cmd msg rd kw w = subprocess_check_call s cmd STDOUT kw w1"
    using p k unfolding check_subprocess_call_def io_bind_def
    by (auto split: prod.splits sum.splits)
  show ?thesis
    using subprocess_check_call_cases[of s cmd STDOUT kw w1 res w'] assms k
    by (simp add: c)
qed

lemma explains_Inr_append:
  "explains (Inr a) evs1 \<Longrightarrow> explains r evs2 \<Longrightarrow> explains r (evs1 @ evs2)"
  by (auto simp: explains_def)

lemma build_block_cases:
  assumes "io_bind (check_subprocess_call s cmake_command msg1 STDOUT no_kwargs)
             (\<lambda>_. check_subprocess_call s make_command msg2 STDOUT no_kwargs) w = (rb, wb)"
  shows "\<exists>evs. events wb = events w @ evs \<and> list_all (\<lambda>e. \<not> is_symlink e \<and> \<not> is_clone e) evs
               \<and> explains rb evs"
  using assms
proof (cases rule: io_bind_cases)
  case (Raise e)
  from check_subprocess_call_cases[OF Raise(1)] Raise(2) show ?thesis
    by (auto simp: cmake_command_def)
next
  case (Next a w1)
  from check_subprocess_call_cases[OF Next(1)] obtain c1 where
    c1: "events w1 = events w @ [Exec cmake_command c1]" "explains (Inr a :: py_error + int) [Exec cmake_command c1]"
    by auto
  from check_subprocess_call_cases[OF Next(2)] obtain c2 where
    c2: "events wb = events w1 @ [Exec make_command c2]" "explains rb [Exec make_command c2]"
    by auto
  have "events wb = events w @ ([Exec cmake_command c1] @ [Exec make_command c2])"
    using c1 c2 by simp
  moreover have "explains rb ([Exec cmake_command c1] @ [Exec make_command c2])"
    using c1(2) c2(2) by (rule explains_Inr_append)
  moreover have "list_all (\<lambda>e. \<not> is_symlink e \<and> \<not> is_clone e)
      ([Exec cmake_command c1] @ [Exec make_command c2])"
    by (simp add: cmake_command_def make_command_def)
  ultimately show ?thesis by blast
qed

lemma os_chdir_keeps: "os_chdir p w = (r, w') \<Longrightarrow> events w' = events w \<and> fs w' = fs w"
  by (auto simp: os_chdir_def split: option.splits node.splits if_splits)

lemma os_chdir_raises: "os_chdir p w = (Inl e, w') \<Longrightarrow> w' = w"
  by (auto simp: os_chdir_def split: option.splits node.splits if_splits)

lemma chdir_cases:
  assumes "chdir p body w = (r, w')"
  obtains (Skipped) e where "r = Inl e" "events w' = events w"
        | (Ran) w1 rb wb where "events w1 = events w" "body w1 = (rb, wb)"
            "events w' = events wb"
            "r = rb \<or> (\<exists>e. r = Inl e \<and> fst (os_chdir (cwd w) w') = Inl e)"
proof (cases "os_getcwd w")
  case (Pair g w0)
  have w0: "w0 = w" using Pair by (auto simp: os_getcwd_def split: option.splits node.splits)
  show ?thesis
  proof (cases g)
    case (Inl e)
    with Pair assms w0 have "r = Inl e" "events w' = events w" by (auto simp: chdir_def)
    then show ?thesis by (rule Skipped)
  next
    case (Inr original_path)
    with Pair have o: "original_path = cwd w"
      by (auto simp: os_getcwd_def split: option.splits node.splits)
    obtain r1 w1 where b: "io_bind (os_chdir p) (\<lambda>_. body) w = (r1, w1)"
      by (cases "io_bind (os_chdir p) (\<lambda>_. body) w") auto
    obtain r2 w2 where c: "os_chdir (cwd w) w1 = (r2, w2)"
      by (cases "os_chdir (cwd w) w1") auto
    note k2 = os_chdir_keeps[OF c]
    have w': "w' = w2" and r: "r = (case r2 of Inl e \<Rightarrow> Inl e | Inr _ \<Rightarrow> r1)"
      using assms Pair Inr o w0 b c by (auto simp: chdir_def split: sum.splits)
    have last: "r = r1 \<or> (\<exists>e. r = Inl e \<and> fst (os_chdir (cwd w) w') = Inl e)"
    proof (cases r2)
      case (Inl e)
      with c have "w2 = w1" by (auto dest: os_chdir_raises)
      with Inl c r w' show ?thesis by simp
    next
      case (Inr u)
      with r show ?thesis by simp
    qed
    from b show ?thesis
    proof (cases rule: io_bind_cases)
      case (Raise e)
      from os_chdir_keeps[OF Raise(1)] have "events w1 = events w" by simp
      moreover have "\<exists>e. r = Inl e" using r Raise(2) by (cases r2) auto
      ultimately show ?thesis using Skipped w' k2 by auto
    next
      case (Next a wa)
      from os_chdir_keeps[OF Next(1)] have "events wa = events w" by simp
      moreover note Next(2)
      moreover have "events w' = events w1" using w' k2 by simp
      ultimately show ?thesis using last by (rule Ran)
    qed
  qed
qed

lemma adds_only_clone_step:
  "adds_only is_clone
     (\<lambda>w. if \<not> is_git_repository w (get_repository_path s identifier)
          then io_bind (clone_solidity_repository s identifier) (\<lambda>_. io_return ()) w
          else (Inr (), w))"
proof -
  have c: "adds_only is_clone (clone_solidity_repository s identifier)"
  proof -
    have "adds_only is_clone
       (io_bind (ensure_parent_dir_exists p)
          (\<lambda>_. check_subprocess_call s (clone_command s identifier) msg STDOUT no_kwargs))" for p msg
      by (intro adds_only_intros) (simp add: clone_command_def)
    then show ?thesis
      by (auto simp: adds_only_def adds_only_at_def clone_solidity_repository_def Let_def
          split: sum.splits)
  qed
  have "adds_only is_clone (io_bind (clone_solidity_repository s identifier) (\<lambda>_. io_return ()))"
    by (intro adds_only_intros c)
  then show ?thesis
    by (auto simp: adds_only_def adds_only_at_def)
qed

lemma cwd_kept_makedirs: "cwd (snd (os_makedirs p w)) = cwd w"
  by (auto simp: os_makedirs_def Let_def)

lemma cwd_kept_ensure_path_exists: "cwd (snd (ensure_path_exists p w)) = cwd w"
  using cwd_kept_makedirs[of p w]
  by (auto simp: ensure_path_exists_def io_bind_def io_return_def split: prod.splits sum.splits)

lemma cwd_kept_ensure_parent_dir_exists: "cwd (snd (ensure_parent_dir_exists p w)) = cwd w"
  using cwd_kept_ensure_path_exists[of "os_path_dirname p" w]
  by (auto simp: ensure_parent_dir_exists_def io_bind_def io_return_def
      split: prod.splits sum.splits)

lemma cwd_kept_clone: "cwd (snd (clone_solidity_repository s identifier w)) = cwd w"
proof -
  have "cwd (snd (io_bind (ensure_parent_dir_exists p)
          (\<lambda>_. check_subprocess_call s cmd msg STDOUT no_kwargs) w)) = cwd w" for p cmd msg
  proof (cases "io_bind (ensure_parent_dir_exists p)
          (\<lambda>_. check_subprocess_call s cmd msg STDOUT no_kwargs) w")
    case (Pair r w')
    then show ?thesis
    proof (cases rule: io_bind_cases)
      case (Raise e)
      then show ?thesis using cwd_kept_ensure_parent_dir_exists[of p w] Pair by simp
    next
      case (Next a w1)
      then show ?thesis
        using cwd_kept_ensure_parent_dir_exists[of p w] check_subprocess_call_cases[OF Next(2)] Pair
        by simp
    qed
  qed
  then show ?thesis
    by (auto simp: clone_solidity_repository_def Let_def split: sum.splits)
qed

lemma cwd_kept_clone_step:
  "cwd (snd ((\<lambda>w. if \<not> is_git_repository w (get_repository_path s identifier)
          then io_bind (clone_solidity_repository s identifier) (\<lambda>_. io_return ()) w
          else (Inr (), w)) w)) = cwd w"
proof (cases "is_git_repository w (get_repository_path s identifier)")
  case True
  then show ?thesis by simp
next
  case False
  obtain r1 w1 where c: "clone_solidity_repository s identifier w = (r1, w1)"
    by (cases "clone_solidity_repository s identifier w") auto
  have "cwd w1 = cwd w" using cwd_kept_clone[of s "identifier" w] c by simp
  with False c show ?thesis
    by (cases r1) (simp_all add: io_bind_def io_return_def)
qed

subsection \<open>Source Build\<close>




lemma adds_only_mono:
  assumes "adds_only P m" "\<And>e. P e \<Longrightarrow> Q e"
  shows "adds_only Q m"
  unfolding adds_only_def adds_only_at_def
proof
  fix w
  obtain r w' where m: "m w = (r, w')" by (cases "m w") auto
  from assms(1) m obtain evs where "events w' = events w @ evs" "list_all P evs"
    by (rule adds_onlyD)
  then show "\<exists>evs. events (snd (m w)) = events w @ evs \<and> list_all Q evs"
    using m assms(2) by (auto simp: list_all_iff)
qed

lemma adds_only_install_solc_dependencies_exec:
  assumes "\<And>c. P (Exec (install_deps_command s identifier) c)"
  shows "adds_only P (install_solc_dependencies s identifier)"
proof -
  have "adds_only P (chdir p
      (check_subprocess_call s (install_deps_command s identifier) msg STDOUT no_kwargs))" for p msg
    by (intro adds_only_intros assms)
  then show ?thesis
    by (auto simp: adds_only_def adds_only_at_def install_solc_dependencies_def Let_def)
qed

lemma build_step_failure:
  assumes run: "build_solc_from_source s identifier w = (r, w')"
      and log: "events w' = events w @ evs"
      and step: "cmd = cmake_command \<or> cmd = make_command"
      and failed: "Exec cmd (Some rc) \<in> set evs" "rc \<noteq> 0"
  shows "list_all (\<lambda>e. \<not> is_symlink e) evs
         \<and> (r = Inl (CalledProcessError rc cmd None)
            \<or> (\<exists>e. r = Inl e \<and> fst (os_chdir (cwd w) w') = Inl e))"
proof -
  let ?goal = "list_all (\<lambda>e. \<not> is_symlink e) evs
         \<and> (r = Inl (CalledProcessError rc cmd None)
            \<or> (\<exists>e. r = Inl e \<and> fst (os_chdir (cwd w) w') = Inl e))"
  have not_clone: "\<not> is_clone (Exec cmd (Some rc))"
    using step by (auto simp: cmake_command_def make_command_def)
  have only_clones: False if "events w' = events w @ evs0" "list_all is_clone evs0" for evs0
  proof -
    from that(1) log have "evs = evs0" by simp
    with that(2) failed(1) not_clone show False by (auto simp: list_all_iff)
  qed
  let ?step0 = "\<lambda>w. if \<not> is_git_repository w (get_repository_path s identifier)
          then io_bind (clone_solidity_repository s identifier) (\<lambda>_. io_return ()) w
          else (Inr (), w)"
  let ?block = "io_bind (check_subprocess_call s cmake_command
                            (Some ''Running cmake build command'') STDOUT no_kwargs)
                 (\<lambda>_. check_subprocess_call s make_command
                        (Some ''Running make command'') STDOUT no_kwargs)"
  let ?after = "\<lambda>_::int. io_bind (chmod_plus_x (get_built_executable_path s identifier))
       (\<lambda>_. io_bind (ensure_parent_dir_exists (get_executable_path s identifier))
       (\<lambda>_. io_bind (os_symlink (get_built_executable_path s identifier)
                        (get_executable_path s identifier))
       (\<lambda>_. io_bind (chmod_plus_x (get_executable_path s identifier))
       (\<lambda>_. io_return PyNone))))"
  let ?k1 = "\<lambda>_::bool. io_bind (chdir (get_build_dir s identifier) ?block) ?after"
  let ?k0 = "\<lambda>_::unit. io_bind (ensure_path_exists (get_build_dir s identifier)) ?k1"
  have unfolded: "io_bind ?step0 ?k0 w = (r, w')"
    using run by (simp add: build_solc_from_source_def Let_def)
  from unfolded show ?thesis
  proof (cases rule: io_bind_cases)
    case (Raise e)
    from adds_only_clone_step Raise(1) obtain evs0 where
      "events w' = events w @ evs0" "list_all is_clone evs0" by (rule adds_onlyD)
    then show ?thesis using only_clones by blast
  next
    case step0: (Next a0 w0)
    from adds_only_clone_step step0(1) obtain evs0 where
      e0: "events w0 = events w @ evs0" "list_all is_clone evs0" by (rule adds_onlyD)
    have c0: "cwd w0 = cwd w" using cwd_kept_clone_step[of w s "identifier"] step0(1) by simp
    from step0(2) show ?thesis
    proof (cases rule: io_bind_cases)
      case (Raise e)
      from adds_only_ensure_path_exists[of "\<lambda>_. False"] Raise(1) obtain evs1 where
        "events w' = events w0 @ evs1" "list_all (\<lambda>_. False) evs1" by (rule adds_onlyD)
      then have "events w' = events w0" by (cases evs1) auto
      with e0 only_clones show ?thesis by simp
    next
      case step1: (Next a1 w1)
      from adds_only_ensure_path_exists[of "\<lambda>_. False"] step1(1) obtain evs1 where
        "events w1 = events w0 @ evs1" "list_all (\<lambda>_. False) evs1" by (rule adds_onlyD)
      then have e1: "events w1 = events w0" by (cases evs1) auto
      have c1: "cwd w1 = cwd w"
        using cwd_kept_ensure_path_exists[of "get_build_dir s identifier" w0] step1(1) c0 by simp
      have after_block: ?goal
        if ch: "chdir (get_build_dir s identifier) ?block w1 = (r2, w2)"
          and fin: "(\<exists>e. r2 = Inl e \<and> r = Inl e \<and> w2 = w')
                    \<or> (\<exists>a. r2 = Inr a \<and> ?after a w2 = (r, w'))" for r2 w2
        using ch
      proof (cases rule: chdir_cases)
        case (Skipped e)
        from fin Skipped(1) have "w2 = w'" by auto
        with Skipped(2) e1 e0 have "events w' = events w @ evs0" by simp
        with e0(2) only_clones show ?thesis by blast
      next
        case (Ran wa rb wb)
        from build_block_cases[OF Ran(2)] obtain evsB where
          eB: "events wb = events wa @ evsB"
              "list_all (\<lambda>e. \<not> is_symlink e \<and> \<not> is_clone e) evsB" "explains rb evsB"
          by blast
        have ev2: "events w2 = events w @ evs0 @ evsB" using Ran(1,3) eB(1) e1 e0 by simp
        from fin show ?thesis
        proof
          assume "\<exists>e. r2 = Inl e \<and> r = Inl e \<and> w2 = w'"
          then obtain e where f: "r2 = Inl e" "r = Inl e" "w2 = w'" by blast
          then have ev': "evs = evs0 @ evsB" using ev2 log by simp
          have inB: "Exec cmd (Some rc) \<in> set evsB"
            using failed(1) ev' e0(2) not_clone by (auto simp: list_all_iff)
          have nosym: "list_all (\<lambda>e. \<not> is_symlink e) evs"
          proof -
            have "\<not> is_symlink x" if "is_clone x" for x using that by (cases x) auto
            then show ?thesis using ev' e0(2) eB(2) by (auto simp: list_all_iff)
          qed
          have rbv: "rb = Inl (CalledProcessError rc cmd None)"
            using eB(3) inB failed(2) by (auto simp: explains_def)
          from Ran(4) have "r2 = rb \<or> (\<exists>e. r2 = Inl e \<and> fst (os_chdir (cwd w1) w2) = Inl e)" .
          then have "r = Inl (CalledProcessError rc cmd None)
                      \<or> (\<exists>e. r = Inl e \<and> fst (os_chdir (cwd w) w') = Inl e)"
            using f rbv c1 by auto
          with nosym show ?thesis by simp
        next
          assume "\<exists>a. r2 = Inr a \<and> ?after a w2 = (r, w')"
          then obtain a where a: "r2 = Inr a" "?after a w2 = (r, w')" by blast
          with Ran(4) have "rb = Inr a" by auto
          with eB(3) have zero: "\<forall>cmd c. Exec cmd c \<in> set evsB \<longrightarrow> c = Some 0"
            by (auto simp: explains_def)
          have "adds_only is_symlink (?after a)"
            by (intro adds_only_intros) simp
          from this a(2) obtain evsS where
            eS: "events w' = events w2 @ evsS" "list_all is_symlink evsS" by (rule adds_onlyD)
          with ev2 log have "evs = evs0 @ evsB @ evsS" by simp
          with failed(1) have "Exec cmd (Some rc) \<in> set evs0 \<or> Exec cmd (Some rc) \<in> set evsB
              \<or> Exec cmd (Some rc) \<in> set evsS" by auto
          then have False
          proof (elim disjE)
            assume "Exec cmd (Some rc) \<in> set evs0"
            with e0(2) not_clone show False by (auto simp: list_all_iff)
          next
            assume "Exec cmd (Some rc) \<in> set evsB"
            with zero failed(2) show False by auto
          next
            assume "Exec cmd (Some rc) \<in> set evsS"
            with eS(2) show False by (auto simp: list_all_iff)
          qed
          then show ?thesis ..
        qed
      qed
      from step1(2) show ?thesis
      proof (cases rule: io_bind_cases)
        case (Raise e)
        then show ?thesis by (intro after_block[of "Inl e" w']) auto
      next
        case (Next a2 w2)
        then show ?thesis by (intro after_block[of "Inr a2" w2]) auto
      qed
    qed
  qed
qed

lemma adds_only_build: "adds_only (\<lambda>_. True) (build_solc_from_source s identifier)"
  unfolding build_solc_from_source_def Let_def
  by (intro adds_only_intros adds_only_mono[OF adds_only_clone_step]) simp_all

text \<open>
  Claim C5, as amended. For every run of the Source Build strategy, entered through
  \<open>install_from_source\<close> or through \<open>build_solc_from_source\<close>, whatever the log
  held before: when the events of the run show that cmake or make exited with a
  nonzero code, \<open>os.symlink\<close> has not been called during the run, and the run ends
  with the error raised by its build step. That error is the \<open>CalledProcessError\<close>
  with exactly that command and exit code, unless \<open>os.chdir(original_path)\<close> in the
  \<open>finally\<close> clause of \<open>chdir\<close> raises, in which case the exception of that call
  propagates instead; \<open>original_path\<close> is the working directory in which the build
  step started. The claim as stated fails in that case.
\<close>

theorem failed_build_step_stops_build:
  assumes entry: "f = build_solc_from_source s identifier \<or> f = install_from_source s identifier"
      and run: "f w = (r, w')"
      and log: "events w' = events w @ evs"
      and step: "cmd = cmake_command \<or> cmd = make_command"
      and failed: "Exec cmd (Some rc) \<in> set evs" "rc \<noteq> 0"
  shows "(\<forall>src dst. Symlink src dst \<notin> set evs)
         \<and> (\<exists>e. r = Inl e)
         \<and> (\<exists>w0. build_solc_from_source s identifier w0 = (r, w')
                \<and> (f = build_solc_from_source s identifier \<longrightarrow> w0 = w)
                \<and> (r = Inl (CalledProcessError rc cmd None)
                    \<or> (\<exists>e. r = Inl e \<and> fst (os_chdir (cwd w0) w') = Inl e)))"
proof (cases "f = build_solc_from_source s identifier")
  case True
  with run have b: "build_solc_from_source s identifier w = (r, w')" by simp
  from build_step_failure[OF b log step failed]
  have n: "list_all (\<lambda>e. \<not> is_symlink e) evs"
    and e: "r = Inl (CalledProcessError rc cmd None)
            \<or> (\<exists>e. r = Inl e \<and> fst (os_chdir (cwd w) w') = Inl e)"
    by simp_all
  from n have "\<forall>src dst. Symlink src dst \<notin> set evs" by (auto simp: list_all_iff)
  moreover from e have "\<exists>e. r = Inl e" by auto
  ultimately show ?thesis using b e by blast
next
  case False
  with entry have f: "f = install_from_source s identifier" by simp
  have not_clone: "\<not> is_clone (Exec cmd (Some rc))"
    using step by (auto simp: cmake_command_def make_command_def)
  have not_deps: "cmd \<noteq> install_deps_command s identifier"
    using step by (auto simp: cmake_command_def make_command_def install_deps_command_def)
  let ?D = "\<lambda>e. \<exists>c. e = Exec (install_deps_command s identifier) c"
  let ?step0 = "\<lambda>w. if \<not> is_git_repository w (get_repository_path s identifier)
          then io_bind (clone_solidity_repository s identifier) (\<lambda>_. io_return ()) w
          else (Inr (), w)"
  let ?rest = "\<lambda>_::pyval. io_bind
       (py_print (''Succesfully installed solc @ `'' @ get_executable_path s identifier @ ''`''))
       (\<lambda>_. io_return PyNone)"
  let ?k1 = "\<lambda>_::int. io_bind (build_solc_from_source s identifier) ?rest"
  let ?k0 = "\<lambda>_::unit. io_bind (install_solc_dependencies s identifier) ?k1"
  have unfolded: "io_bind ?step0 ?k0 w = (r, w')"
    using run f by (simp add: install_from_source_def Let_def)
  have before_build: False
    if "events w' = events w @ evs0 @ evsD" "list_all is_clone evs0" "list_all ?D evsD"
    for evs0 evsD
  proof -
    from that(1) log have "evs = evs0 @ evsD" by simp
    with failed(1) that(2,3) not_clone not_deps show False by (auto simp: list_all_iff)
  qed
  from unfolded show ?thesis
  proof (cases rule: io_bind_cases)
    case (Raise e)
    from adds_only_clone_step Raise(1) obtain evs0 where
      "events w' = events w @ evs0" "list_all is_clone evs0" by (rule adds_onlyD)
    then show ?thesis using before_build[of evs0 "[]"] by simp
  next
    case step0: (Next a0 w0)
    from adds_only_clone_step step0(1) obtain evs0 where
      e0: "events w0 = events w @ evs0" "list_all is_clone evs0" by (rule adds_onlyD)
    have d: "adds_only ?D (install_solc_dependencies s identifier)"
      by (rule adds_only_install_solc_dependencies_exec) simp
    from step0(2) show ?thesis
    proof (cases rule: io_bind_cases)
      case (Raise e)
      from d Raise(1) obtain evsD where
        "events w' = events w0 @ evsD" "list_all ?D evsD" by (rule adds_onlyD)
      with e0 show ?thesis using before_build[of evs0 evsD] by simp
    next
      case deps: (Next a1 w1)
      from d deps(1) obtain evsD where
        eD: "events w1 = events w0 @ evsD" "list_all ?D evsD" by (rule adds_onlyD)
      obtain rb wb where b: "build_solc_from_source s identifier w1 = (rb, wb)"
        by (cases "build_solc_from_source s identifier w1") auto
      from adds_only_build b obtain evsB where
        eB: "events wb = events w1 @ evsB" by (rule adds_onlyD)
      have finish: "events w' = events wb \<and> ((\<exists>e. rb = Inl e \<and> r = Inl e \<and> w' = wb)
                      \<or> (\<exists>a. rb = Inr a))"
        using deps(2) b
      proof (cases rule: io_bind_cases)
        case (Raise e)
        with b show ?thesis by auto
      next
        case (Next a2 w2)
        have "adds_only (\<lambda>_. False) (?rest a2)" by (intro adds_only_intros)
        from this Next(2) obtain evsR where
          "events w' = events w2 @ evsR" "list_all (\<lambda>_. False) evsR" by (rule adds_onlyD)
        then have "events w' = events w2" by (cases evsR) auto
        with Next(1) b show ?thesis by simp
      qed
      then have "events w' = events w @ evs0 @ evsD @ evsB" using e0 eD eB by simp
      with log have evs: "evs = evs0 @ evsD @ evsB" by simp
      have inB: "Exec cmd (Some rc) \<in> set evsB"
        using failed(1) evs e0(2) eD(2) not_clone not_deps by (auto simp: list_all_iff)
      from build_step_failure[OF b eB step inB failed(2)]
      have n: "list_all (\<lambda>e. \<not> is_symlink e) evsB"
        and e: "rb = Inl (CalledProcessError rc cmd None)
            \<or> (\<exists>e. rb = Inl e \<and> fst (os_chdir (cwd w1) wb) = Inl e)"
        by simp_all
      from e obtain eb where eb: "rb = Inl eb" by auto
      with finish have same: "r = Inl eb" "w' = wb" by auto
      have "\<not> is_symlink x" if "is_clone x" for x using that by (cases x) auto
      then have "\<forall>src dst. Symlink src dst \<notin> set evs"
        using evs e0(2) eD(2) n by (auto simp: list_all_iff)
      moreover have "\<exists>e. r = Inl e" using same by simp
      moreover have "build_solc_from_source s identifier w1 = (r, w')"
        using b eb same by simp
      moreover have "r = Inl (CalledProcessError rc cmd None)
                    \<or> (\<exists>e. r = Inl e \<and> fst (os_chdir (cwd w1) w') = Inl e)"
        using e eb same by auto
      ultimately show ?thesis using False by blast
    qed
  qed
qed

theorem failed_build_step_stops_build_witness:
  "events (snd (install_from_source sys_failing_make V100_5_12 world_repo))
     = events world_repo @
       [Exec [''sh'', ''/opt/solc-v100.5.12/source/scripts/install_deps.sh''] (Some 0),
        Exec [''cmake'', ''..''] (Some 0), Exec [''make''] (Some 2)]
   \<and> make_command = [''make'']
   \<and> (2::int) \<noteq> 0
   \<and> (\<forall>src dst. Symlink src dst \<notin> set
        [Exec [''sh'', ''/opt/solc-v100.5.12/source/scripts/install_deps.sh''] (Some 0),
         Exec [''cmake'', ''..''] (Some 0), Exec [''make''] (Some 2)])
   \<and> fst (install_from_source sys_failing_make V100_5_12 world_repo)
       = Inl (CalledProcessError 2 [''make''] None)"
proof -
  let ?f = "install_from_source sys_failing_make V100_5_12"
  let ?evs = "[Exec [''sh'', ''/opt/solc-v100.5.12/source/scripts/install_deps.sh''] (Some 0),
        Exec [''cmake'', ''..''] (Some 0), Exec [''make''] (Some 2)]"
  have h0: "?f = build_solc_from_source sys_failing_make V100_5_12 \<or> ?f = ?f" by simp
  have h1: "?f world_repo = (fst (?f world_repo), snd (?f world_repo))" by simp
  have h2: "events (snd (?f world_repo)) = events world_repo @ ?evs" by code_simp
  have h3: "make_command = cmake_command \<or> make_command = make_command" by simp
  have h4: "Exec make_command (Some 2) \<in> set ?evs" by (simp add: make_command_def)
  have h5: "(2::int) \<noteq> 0" by simp
  have h6: "fst (?f world_repo) = Inl (CalledProcessError 2 [''make''] None)" by code_simp
  show ?thesis
    using h2 h5 h6 failed_build_step_stops_build [OF h0 h1 h2 h3 h4 h5]
    by (simp add: make_command_def)
qed

text \<open>The claim as stated fails: cmake removes the directory the process was
  started in and exits with code 1; the caller gets the \<open>FileNotFoundError\<close> of the
  \<open>finally\<close> clause, not the error of cmake.\<close>

theorem failed_build_step_other_error_counterexample:
  "events world_repo = []
   \<and> events (snd (install_from_source sys_cmake_removes_home V100_5_12 world_repo))
       = [Exec [''sh'', ''/opt/solc-v100.5.12/source/scripts/install_deps.sh''] (Some 0),
          Exec cmake_command (Some 1)]
   \<and> fst (install_from_source sys_cmake_removes_home V100_5_12 world_repo)
       = Inl (FileNotFoundError ''/home/u'')
   \<and> fst (install_from_source sys_cmake_removes_home V100_5_12 world_repo)
       \<noteq> Inl (CalledProcessError 1 cmake_command None)"
  by code_simp

end
